theory Spec2Isabelle
  imports Main
begin

section \<open>JavaScript values as the application sees them\<close>

text \<open>
  Everything the component receives from the backend is the result of parsing a JSON
  body, and the component stores those values unchanged in its state. The values are
  therefore modelled as one datatype. \<open>JUndefined\<close> is what reading an absent
  property or an index out of range yields. Numbers are the integers (game ids, cell
  indexes); no arithmetic is done on them. An object is the association list of its own
  properties, the first binding of a key being the one that is read.
\<close>

datatype jsval =
    JUndefined
  | JNull
  | JBool bool
  | JNum int
  | JStr string
  | JArr "jsval list"
  | JObj "(string \<times> jsval) list"

text \<open>What \<open>if (v)\<close>, \<open>!v\<close>, \<open>v && _\<close> and \<open>v || _\<close> test.\<close>

fun truthy :: "jsval \<Rightarrow> bool" where
  "truthy JUndefined = False"
| "truthy JNull = False"
| "truthy (JBool b) = b"
| "truthy (JNum n) = (n \<noteq> 0)"
| "truthy (JStr s) = (s \<noteq> [])"
| "truthy (JArr xs) = True"
| "truthy (JObj kvs) = True"

text \<open>\<open>a || b\<close>\<close>

definition js_or :: "jsval \<Rightarrow> jsval \<Rightarrow> jsval" where
  "js_or a b = (if truthy a then a else b)"

text \<open>
  \<open>a === b\<close>. Primitives compare by value. Arrays and objects compare by reference;
  the operands compared in this program are always taken from two different places of
  one parsed JSON value, or are a parsed value and a literal, so two arrays or two
  objects are never the same reference.
\<close>

fun strict_eq :: "jsval \<Rightarrow> jsval \<Rightarrow> bool" where
  "strict_eq JUndefined JUndefined = True"
| "strict_eq JNull JNull = True"
| "strict_eq (JBool a) (JBool b) = (a = b)"
| "strict_eq (JNum a) (JNum b) = (a = b)"
| "strict_eq (JStr a) (JStr b) = (a = b)"
| "strict_eq _ _ = False"

text \<open>
  Errors that reach a \<open>catch\<close>: the \<open>Error\<close> that \<open>apiFetch\<close> throws, with its
  message, and the \<open>TypeError\<close> of the engine for a property read on \<open>null\<close> or
  \<open>undefined\<close>. The wording of the latter is the engine's own; it stands here as the
  name of the error.
\<close>

datatype js_error = Error string | TypeError

fun message :: "js_error \<Rightarrow> string" where
  "message (Error m) = m"
| "message TypeError = ''TypeError''"

definition nullish :: "jsval \<Rightarrow> bool" where
  "nullish v = (v = JUndefined \<or> v = JNull)"

text \<open>
  \<open>v.k\<close> for the property names this program reads (\<open>id\<close>, \<open>state\<close>, \<open>winner\<close>,
  \<open>win_line\<close>, \<open>username\<close>, \<open>games\<close>, and \<open>length\<close> of an object): a TypeError on
  \<open>null\<close> and \<open>undefined\<close>, the own property of an object, \<open>undefined\<close> on
  everything else.
\<close>

fun get_prop :: "jsval \<Rightarrow> string \<Rightarrow> js_error + jsval" where
  "get_prop JUndefined k = Inl TypeError"
| "get_prop JNull k = Inl TypeError"
| "get_prop (JObj kvs) k = Inr (case map_of kvs k of None \<Rightarrow> JUndefined | Some v \<Rightarrow> v)"
| "get_prop _ k = Inr JUndefined"

text \<open>\<open>v?.k\<close>\<close>

definition opt_prop :: "jsval \<Rightarrow> string \<Rightarrow> jsval" where
  "opt_prop v k = (case get_prop v k of Inl _ \<Rightarrow> JUndefined | Inr x \<Rightarrow> x)"

text \<open>
  \<open>board[i]\<close> on a value that is neither \<open>null\<close> nor \<open>undefined\<close>, for the indexes
  \<open>0..8\<close> that the scan uses: an array or a string yields its element, or \<open>undefined\<close>
  past its end; an object yields its property named by the decimal digit; a number or a
  boolean has no such property. \<open>digit_key\<close> is the property name of an index below
  ten, the only ones read.
\<close>

definition digit_key :: "nat \<Rightarrow> string" where
  "digit_key i = (if i < 10 then [''0123456789'' ! i] else [])"

fun cell :: "jsval \<Rightarrow> nat \<Rightarrow> jsval" where
  "cell (JArr xs) i = (if i < length xs then xs ! i else JUndefined)"
| "cell (JStr s) i = (if i < length s then JStr [s ! i] else JUndefined)"
| "cell (JObj kvs) i = (case map_of kvs (digit_key i) of None \<Rightarrow> JUndefined | Some v \<Rightarrow> v)"
| "cell _ i = JUndefined"

section \<open>The win-line scan\<close>

text \<open>\<open>emptyBoard = Array(9).fill(null)\<close>\<close>

definition emptyBoard :: "jsval list" where
  "emptyBoard = replicate 9 JNull"

definition WIN_LINES :: "(nat \<times> nat \<times> nat) list" where
  "WIN_LINES =
     [(0,1,2), (3,4,5), (6,7,8),
      (0,3,6), (1,4,7), (2,5,8),
      (0,4,8), (2,4,6)]"

text \<open>The array \<open>[a, b, c]\<close> that the scan returns.\<close>

definition line_val :: "nat \<times> nat \<times> nat \<Rightarrow> jsval" where
  "line_val l = (case l of (a, b, c) \<Rightarrow> JArr [JNum (int a), JNum (int b), JNum (int c)])"

text \<open>
  The test of the loop body,
  \<open>board[a] && board[a] === board[b] && board[a] === board[c]\<close>.
\<close>

definition line_hit :: "jsval \<Rightarrow> nat \<times> nat \<times> nat \<Rightarrow> bool" where
  "line_hit board l = (case l of (a, b, c) \<Rightarrow>
     truthy (cell board a) \<and> strict_eq (cell board a) (cell board b)
       \<and> strict_eq (cell board a) (cell board c))"

text \<open>The \<open>for (let line of ...)\<close> loop with its early return, and \<open>return null\<close> after it.\<close>

fun scan :: "(nat \<times> nat \<times> nat) list \<Rightarrow> jsval \<Rightarrow> jsval" where
  "scan [] board = JNull"
| "scan (l # ls) board = (if line_hit board l then line_val l else scan ls board)"

text \<open>
  \<open>getWinLine(board)\<close>. The first iteration reads \<open>board[0]\<close>, which throws when the
  argument is \<open>null\<close> or \<open>undefined\<close>; on every other value no read throws.
\<close>

definition getWinLine :: "jsval \<Rightarrow> js_error + jsval" where
  "getWinLine board = (if nullish board then Inl TypeError else Inr (scan WIN_LINES board))"

section \<open>The state of the \<open>App\<close> component and its surroundings\<close>

text \<open>
  An HTTP request that \<open>apiFetch\<close> is called with: the route with the values
  interpolated into it, and the fields of the JSON body.
\<close>

datatype request =
    Signup string \<comment> \<open>\<open>POST /users/signup\<close>, body \<open>{username}\<close>\<close>
  | Login string \<comment> \<open>\<open>POST /users/login\<close>, body \<open>{username}\<close>\<close>
  | CreateGame jsval \<comment> \<open>\<open>POST /games\<close>, body \<open>{player}\<close>\<close>
  | GetGame jsval \<comment> \<open>\<open>GET /games/${id}\<close>\<close>
  | PostMove jsval jsval nat \<comment> \<open>\<open>POST /games/${gameId}/move\<close>, body \<open>{player, move_index}\<close>\<close>
  | GetUserGames jsval \<comment> \<open>\<open>GET /users/${userId}/games\<close>\<close>

text \<open>
  The backend is not part of the repository. What \<open>await apiFetch(...)\<close> gives for a
  request is a parameter of every handler: \<open>Inl e\<close> when \<open>apiFetch\<close> throws (a
  response that is not ok, or a transport failure), \<open>Inr v\<close> with the parsed body
  otherwise.
\<close>

type_synonym backend = "request \<Rightarrow> js_error + jsval"

text \<open>
  The \<open>useState\<close> cells of \<open>App\<close>, under the names of the source, together with the
  browser's \<open>localStorage\<close> and the list of requests issued so far. A stored item is
  kept as the JSON value whose serialisation the stored string is
  (\<open>JSON.parse (JSON.stringify v) = v\<close> on parsed JSON).
\<close>

record app =
  theme :: string
  user :: jsval
  authError :: string
  authLoading :: bool
  gameId :: jsval
  game :: jsval
  playing :: bool
  board :: "jsval list"
  winLine :: jsval
  fetching :: bool
  msg :: string
  result :: jsval
  history :: jsval
  localStorage :: "string \<rightharpoonup> jsval"
  requests :: "request list"

text \<open>The initial values given to \<open>useState\<close>, an empty store, no request issued.\<close>

definition initial :: app where
  "initial = \<lparr> theme = ''light'', user = JNull, authError = [], authLoading = False,
     gameId = JNull, game = JNull, playing = False, board = emptyBoard, winLine = JNull,
     fetching = False, msg = [], result = JNull, history = JArr [],
     localStorage = Map.empty, requests = [] \<rparr>"

definition issue :: "request \<Rightarrow> app \<Rightarrow> app" where
  "issue r w = w\<lparr>requests := requests w @ [r]\<rparr>"

text \<open>
  \<open>res.state && Array.isArray(res.state) ? res.state : [...emptyBoard]\<close>. Every array
  is truthy, so the test is that of being an array, whatever its length.
\<close>

fun snapshot :: "jsval \<Rightarrow> jsval list" where
  "snapshot (JArr xs) = xs"
| "snapshot _ = emptyBoard"

text \<open>\<open>user?.id || user?.username\<close>\<close>

definition player_of :: "jsval \<Rightarrow> jsval" where
  "player_of u = js_or (opt_prop u ''id'') (opt_prop u ''username'')"

text \<open>\<open>res.winner === 'draw' ? 'draw' : res.winner\<close>\<close>

definition shown_result :: "jsval \<Rightarrow> jsval" where
  "shown_result winner = (if strict_eq winner (JStr ''draw'') then JStr ''draw'' else winner)"

text \<open>
  \<open>res.win_line || getWinLine(res.state)\<close>, for a \<open>res\<close> that is not \<open>null\<close>: the right
  operand is evaluated only when the left one is falsy.
\<close>

definition pick_win_line :: "jsval \<Rightarrow> js_error + jsval" where
  "pick_win_line res =
     (if truthy (opt_prop res ''win_line'') then Inr (opt_prop res ''win_line'')
      else getWinLine (opt_prop res ''state''))"

subsection \<open>Session: mount, login or signup, logout\<close>

text \<open>
  The mount effect: \<open>JSON.parse(localStorage.getItem('ttt-user'))\<close> is \<open>null\<close> when
  the key is absent; \<open>if (u) setUser(u)\<close>.
\<close>

definition loadUser :: "app \<Rightarrow> app" where
  "loadUser w = (case localStorage w ''ttt-user'' of
       None \<Rightarrow> w
     | Some u \<Rightarrow> (if truthy u then w\<lparr>user := u\<rparr> else w))"

text \<open>
  \<open>handleAuth(username, signup)\<close>. The inner \<open>try\<close> replaces a failed call by the
  object \<open>{ id: username, username }\<close>. Nothing after it throws in this model, so the
  outer \<open>catch\<close> with \<open>setAuthError\<close> has no branch.
\<close>

definition handleAuth :: "backend \<Rightarrow> string \<Rightarrow> bool \<Rightarrow> app \<Rightarrow> app" where
  "handleAuth be username signup w =
     (let w1 = w\<lparr>authLoading := True, authError := []\<rparr>;
          req = (if signup then Signup username else Login username);
          w2 = issue req w1;
          res = (case be req of
                   Inl _ \<Rightarrow> JObj [(''id'', JStr username), (''username'', JStr username)]
                 | Inr v \<Rightarrow> v);
          w3 = w2\<lparr>user := res, localStorage := (localStorage w2)(''ttt-user'' \<mapsto> res)\<rparr>
      in w3\<lparr>authLoading := False\<rparr>)"

text \<open>The \<open>onClick\<close> of the Logout button: \<open>setUser(null); localStorage.removeItem('ttt-user')\<close>.\<close>

definition logout :: "app \<Rightarrow> app" where
  "logout w = w\<lparr>user := JNull, localStorage := (localStorage w)(''ttt-user'' := None)\<rparr>"

subsection \<open>Game handlers\<close>

text \<open>
  Each handler is the final state of its \<open>async\<close> function once the awaited call has
  settled, no other handler having run in between. A \<open>setX\<close> made before a throw
  inside the \<open>try\<close> stays made; the \<open>catch\<close> sets \<open>msg\<close>; \<open>setFetching(false)\<close>
  follows in every case.
\<close>

definition startNewGame :: "backend \<Rightarrow> app \<Rightarrow> app" where
  "startNewGame be w =
     (let w1 = w\<lparr>msg := ''Creating game...'', fetching := True\<rparr>;
          req = CreateGame (player_of (user w));
          w2 = issue req w1;
          w3 = (case be req of
                  Inl e \<Rightarrow> w2\<lparr>msg := ''Failed to create game: '' @ message e\<rparr>
                | Inr res \<Rightarrow>
                    (case get_prop res ''id'' of
                       Inl e \<Rightarrow> w2\<lparr>msg := ''Failed to create game: '' @ message e\<rparr>
                     | Inr rid \<Rightarrow>
                         w2\<lparr>gameId := rid, board := snapshot (opt_prop res ''state''),
                            playing := True, result := JNull, winLine := JNull\<rparr>))
      in w3\<lparr>fetching := False\<rparr>)"

definition joinGame :: "backend \<Rightarrow> jsval \<Rightarrow> app \<Rightarrow> app" where
  "joinGame be gid w =
     (let w1 = w\<lparr>msg := ''Joining game...'', fetching := True\<rparr>;
          req = GetGame gid;
          w2 = issue req w1;
          w3 = (case be req of
                  Inl e \<Rightarrow> w2\<lparr>msg := ''Could not join: '' @ message e\<rparr>
                | Inr res \<Rightarrow>
                    (case get_prop res ''id'' of
                       Inl e \<Rightarrow> w2\<lparr>msg := ''Could not join: '' @ message e\<rparr>
                     | Inr rid \<Rightarrow>
                         w2\<lparr>gameId := rid, board := snapshot (opt_prop res ''state''),
                            game := res, playing := True, result := JNull,
                            winLine := JNull\<rparr>))
      in w3\<lparr>fetching := False\<rparr>)"

definition playMove :: "backend \<Rightarrow> nat \<Rightarrow> app \<Rightarrow> app" where
  "playMove be cellIdx w =
     (if \<not> truthy (gameId w) \<or> \<not> truthy (user w) then w
      else
        let w1 = w\<lparr>msg := [], fetching := True\<rparr>;
            req = PostMove (gameId w) (player_of (user w)) cellIdx;
            w2 = issue req w1;
            w3 = (case be req of
                    Inl e \<Rightarrow> w2\<lparr>msg := ''Move failed: '' @ message e\<rparr>
                  | Inr res \<Rightarrow>
                      (case get_prop res ''state'' of
                         Inl e \<Rightarrow> w2\<lparr>msg := ''Move failed: '' @ message e\<rparr>
                       | Inr st \<Rightarrow>
                           (let w4 = w2\<lparr>board := snapshot st, game := res\<rparr>;
                                winner = opt_prop res ''winner''
                            in if truthy winner then
                                 (let w5 = w4\<lparr>result := shown_result winner\<rparr>
                                  in case pick_win_line res of
                                       Inl e \<Rightarrow> w5\<lparr>msg := ''Move failed: '' @ message e\<rparr>
                                     | Inr l \<Rightarrow> w5\<lparr>winLine := l, playing := False\<rparr>)
                               else w4)))
        in w3\<lparr>fetching := False\<rparr>)"

definition fetchGame :: "backend \<Rightarrow> jsval \<Rightarrow> app \<Rightarrow> app" where
  "fetchGame be gid w =
     (let w1 = w\<lparr>msg := ''Loading game...'', fetching := True\<rparr>;
          req = GetGame gid;
          w2 = issue req w1;
          w3 = (case be req of
                  Inl e \<Rightarrow> w2\<lparr>msg := ''Load failed: '' @ message e\<rparr>
                | Inr res \<Rightarrow>
                    (let w4 = w2\<lparr>game := res\<rparr>
                     in case get_prop res ''state'' of
                          Inl e \<Rightarrow> w4\<lparr>msg := ''Load failed: '' @ message e\<rparr>
                        | Inr st \<Rightarrow>
                            (let winner = opt_prop res ''winner'';
                                 w5 = w4\<lparr>board := snapshot st,
                                         result := (if truthy winner then shown_result winner
                                                    else JNull)\<rparr>
                             in case pick_win_line res of
                                  Inl e \<Rightarrow> w5\<lparr>msg := ''Load failed: '' @ message e\<rparr>
                                | Inr l \<Rightarrow> w5\<lparr>winLine := l, playing := (\<not> truthy winner)\<rparr>)))
      in w3\<lparr>fetching := False\<rparr>)"

definition fetchMatchHistory :: "backend \<Rightarrow> app \<Rightarrow> app" where
  "fetchMatchHistory be w =
     (let w1 = w\<lparr>msg := ''Loading match history...''\<rparr>;
          req = GetUserGames (player_of (user w));
          w2 = issue req w1
      in case be req of
           Inl e \<Rightarrow> w2\<lparr>msg := ''Failed to load history: '' @ message e, history := JArr []\<rparr>
         | Inr res \<Rightarrow>
             (case get_prop res ''games'' of
                Inl e \<Rightarrow> w2\<lparr>msg := ''Failed to load history: '' @ message e,
                            history := JArr []\<rparr>
              | Inr g \<Rightarrow> w2\<lparr>history := js_or (js_or g res) (JArr [])\<rparr>))"

text \<open>
  The bodies of the two effects that React runs after a render in which \<open>user\<close>,
  respectively \<open>gameId\<close>, is not the value of the render before.
\<close>

definition userEffect :: "backend \<Rightarrow> app \<Rightarrow> app" where
  "userEffect be w = (if truthy (user w) then fetchMatchHistory be w else w)"

definition gameIdEffect :: "backend \<Rightarrow> app \<Rightarrow> app" where
  "gameIdEffect be w = (if truthy (gameId w) then fetchGame be (gameId w) w else w)"

subsection \<open>The board on screen\<close>

text \<open>
  The props that \<open>App\<close> passes to \<open>GameBoard\<close>. \<open>onPlay\<close> is either \<open>playMove\<close> or
  \<open>null\<close>; the field records which.
\<close>

record board_props =
  p_board :: "jsval list"
  p_disabled :: bool
  p_onPlay :: bool
  p_highlight :: jsval

definition gameBoardProps :: "app \<Rightarrow> board_props" where
  "gameBoardProps w = \<lparr> p_board = board w,
     p_disabled = (\<not> playing w \<or> fetching w \<or> truthy (result w)),
     p_onPlay = playing w,
     p_highlight = winLine w \<rparr>"

text \<open>
  Rendering can throw, and an error thrown while rendering unmounts the whole page, the
  board with it. Three things throw on a value of the state:
  \<^item> the conversion of an object to a string, in a template literal, in \<open>i + 1\<close> and
    in a \<open>key\<close>, when the object has an own property \<open>toString\<close> (which, coming from
    JSON, is no function); an array is converted through its elements;
  \<^item> an object given to React as a child; an array is a list of children;
  \<^item> the call of a method that the value does not have.
\<close>

fun stringable :: "jsval \<Rightarrow> bool" where
  "stringable (JObj kvs) = (map_of kvs ''toString'' = None)"
| "stringable (JArr xs) = list_all stringable xs"
| "stringable _ = True"

fun renderable :: "jsval \<Rightarrow> bool" where
  "renderable (JObj kvs) = False"
| "renderable (JArr xs) = list_all renderable xs"
| "renderable _ = True"

text \<open>
  One \<open>li\<close> of \<open>MatchHistory\<close>: \<open>game.id\<close> is read (a TypeError on \<open>null\<close>), used as
  \<open>key\<close> and rendered as a child; \<open>`Winner: ${game.winner}`\<close> is built when the
  winner is truthy and not \<open>'draw'\<close>.
\<close>

definition history_item_throws :: "jsval \<Rightarrow> bool" where
  "history_item_throws g =
     (nullish g \<or> \<not> stringable (opt_prop g ''id'') \<or> \<not> renderable (opt_prop g ''id'')
       \<or> (truthy (opt_prop g ''winner'')
            \<and> \<not> strict_eq (opt_prop g ''winner'') (JStr ''draw'')
            \<and> \<not> stringable (opt_prop g ''winner'')))"

text \<open>
  \<open>MatchHistory\<close>: \<open>history.length === 0 ? ... : history.map(...)\<close>. Only an array has
  \<open>map\<close>; a string has a \<open>length\<close>, an object may have one as an own property.
\<close>

fun MatchHistory_throws :: "jsval \<Rightarrow> bool" where
  "MatchHistory_throws (JArr xs) = list_ex history_item_throws xs"
| "MatchHistory_throws (JStr s) = (s \<noteq> [])"
| "MatchHistory_throws (JObj kvs) = (\<not> strict_eq (opt_prop (JObj kvs) ''length'') (JNum 0))"
| "MatchHistory_throws _ = True"

text \<open>
  \<open>highlight && highlight.includes(idx)\<close>: arrays and strings have \<open>includes\<close>, no other
  truthy value has.
\<close>

fun includes_throws :: "jsval \<Rightarrow> bool" where
  "includes_throws (JArr xs) = False"
| "includes_throws (JStr s) = False"
| "includes_throws h = truthy h"

text \<open>
  \<open>GameBoard\<close> evaluates, for each cell, the test of the highlight and the
  \<open>aria-label\<close> with \<open>${cell || 'empty'}\<close> in it.
\<close>

definition GameBoard_throws :: "board_props \<Rightarrow> bool" where
  "GameBoard_throws p =
     (p_board p \<noteq> []
       \<and> (includes_throws (p_highlight p)
            \<or> list_ex (\<lambda>c. truthy c \<and> \<not> stringable c) (p_board p)))"

text \<open>
  \<open>GameResult\<close>: nothing for a falsy result; for a result that is not \<open>'draw'\<close>,
  \<open>winLine && winLine.map((i) => i + 1).join(', ')\<close>.
\<close>

fun map_throws :: "jsval \<Rightarrow> bool" where
  "map_throws (JArr xs) = list_ex (\<lambda>i. \<not> stringable i) xs"
| "map_throws v = truthy v"

definition GameResult_throws :: "jsval \<Rightarrow> jsval \<Rightarrow> bool" where
  "GameResult_throws res wl =
     (truthy res \<and> \<not> strict_eq res (JStr ''draw'') \<and> map_throws wl)"

text \<open>
  The page of a signed-in user: \<open>{user.username}\<close> as a child, \<open>MatchHistory\<close>,
  \<open>gameId ? `Game #${gameId}` : ...\<close>, \<open>GameBoard\<close>, \<open>GameResult\<close>. The other
  children are strings, elements, or a falsy \<open>game\<close>, \<open>msg\<close> or \<open>winLine\<close> itself,
  none of which is an object.
\<close>

definition page_throws :: "app \<Rightarrow> bool" where
  "page_throws w =
     (\<not> renderable (opt_prop (user w) ''username'')
       \<or> MatchHistory_throws (history w)
       \<or> (truthy (gameId w) \<and> \<not> stringable (gameId w))
       \<or> GameBoard_throws (gameBoardProps w)
       \<or> GameResult_throws (result w) (winLine w))"

text \<open>\<open>disabled={disabled || !!cell}\<close> of the button of cell \<open>idx\<close>.\<close>

definition cell_disabled :: "board_props \<Rightarrow> nat \<Rightarrow> bool" where
  "cell_disabled p idx = (p_disabled p \<or> truthy (p_board p ! idx))"

text \<open>
  The calls of \<open>playMove\<close> that a click on cell \<open>idx\<close> of \<open>GameBoard\<close> makes.
  \<open>board.map\<close> renders one button for each element of the array and no other, and none
  when it throws; a disabled button runs no \<open>onClick\<close>; the handler is
  \<open>() => onPlay && onPlay(idx)\<close>.
\<close>

definition GameBoard_click :: "board_props \<Rightarrow> nat \<Rightarrow> nat list" where
  "GameBoard_click p idx =
     (if GameBoard_throws p then []
      else if idx < length (p_board p) \<and> \<not> cell_disabled p idx \<and> p_onPlay p then [idx]
      else [])"

text \<open>
  \<open>App\<close> returns the login page, with no board on it, while \<open>user\<close> is falsy; the page
  with \<open>GameBoard\<close> otherwise, and nothing when rendering that page throws.
\<close>

definition App_click :: "app \<Rightarrow> nat \<Rightarrow> nat list" where
  "App_click w idx =
     (if \<not> truthy (user w) then []
      else if page_throws w then []
      else GameBoard_click (gameBoardProps w) idx)"

subsection \<open>\<open>getWinLine\<close> as a sequence of reads\<close>

text \<open>
  To state what \<open>getWinLine\<close> does besides returning a value, its body is written once
  more, statement by statement, over everything it could touch: the arrays of the heap,
  among them the board it is given by reference, and the state of the component with the
  store of the browser and the requests issued. The one operation of its body that
  touches any of these is the element read \<open>board[i]\<close>; the board is an array parsed
  from JSON, so the read runs no getter.
\<close>

record machine =
  heap :: "nat \<Rightarrow> jsval list"
  ui :: app

definition load :: "nat \<Rightarrow> nat \<Rightarrow> machine \<Rightarrow> jsval \<times> machine" where
  "load p i m = (cell (JArr (heap m p)) i, m)"

text \<open>
  The loop. \<open>board[a] && board[a] === board[b] && board[a] === board[c]\<close> reads
  \<open>board[a]\<close>; when that is truthy, \<open>board[a]\<close> and \<open>board[b]\<close>; when these are equal,
  \<open>board[a]\<close> and \<open>board[c]\<close>.
\<close>

fun scan_run :: "(nat \<times> nat \<times> nat) list \<Rightarrow> nat \<Rightarrow> machine \<Rightarrow> jsval \<times> machine" where
  "scan_run [] p m = (JNull, m)"
| "scan_run (l # ls) p m =
     (case l of (a, b, c) \<Rightarrow>
        (case load p a m of (v1, m1) \<Rightarrow>
           if \<not> truthy v1 then scan_run ls p m1
           else
             (case load p a m1 of (v2, m2) \<Rightarrow>
                (case load p b m2 of (v3, m3) \<Rightarrow>
                   if \<not> strict_eq v2 v3 then scan_run ls p m3
                   else
                     (case load p a m3 of (v4, m4) \<Rightarrow>
                        (case load p c m4 of (v5, m5) \<Rightarrow>
                           if strict_eq v4 v5 then (line_val l, m5)
                           else scan_run ls p m5))))))"

definition getWinLine_run :: "nat \<Rightarrow> machine \<Rightarrow> jsval \<times> machine" where
  "getWinLine_run p m = scan_run WIN_LINES p m"

section \<open>Reference notions and sample data\<close>

text \<open>
  A board as the backend sends it in a regular game: nine cells, each \<open>null\<close> (empty),
  \<open>'X'\<close> or \<open>'O'\<close>, the two marks that \<open>GameBoard\<close> draws.
\<close>

abbreviation mark_X :: jsval where
  "mark_X \<equiv> JStr ''X''"

abbreviation mark_O :: jsval where
  "mark_O \<equiv> JStr ''O''"

definition valid_cell :: "jsval \<Rightarrow> bool" where
  "valid_cell c = (c = JNull \<or> c = mark_X \<or> c = mark_O)"

definition well_formed :: "jsval list \<Rightarrow> bool" where
  "well_formed b = (length b = 9 \<and> list_all valid_cell b)"

text \<open>
  The outcome derivation in the words of the specification, for comparison with
  \<open>getWinLine\<close>: \<open>win(mark, line)\<close> for the first of the eight triples, in the order of
  \<open>WIN_LINES\<close>, whose three cells are equal and not empty; \<open>draw\<close> when no triple
  matches and no cell is empty; \<open>none\<close> otherwise.
\<close>

datatype outcome = NoOutcome | Win jsval "nat \<times> nat \<times> nat" | Draw

definition triple_matches :: "jsval list \<Rightarrow> nat \<times> nat \<times> nat \<Rightarrow> bool" where
  "triple_matches b l =
     (case l of (x, y, z) \<Rightarrow> b ! x \<noteq> JNull \<and> b ! x = b ! y \<and> b ! x = b ! z)"

definition deriveOutcome_spec :: "jsval list \<Rightarrow> outcome" where
  "deriveOutcome_spec b =
     (case find (triple_matches b) WIN_LINES of
        Some l \<Rightarrow> Win (b ! fst l) l
      | None \<Rightarrow> (if JNull \<in> set b then NoOutcome else Draw))"

definition in_range :: "nat \<times> nat \<times> nat \<Rightarrow> bool" where
  "in_range l = (case l of (x, y, z) \<Rightarrow> x < 9 \<and> y < 9 \<and> z < 9)"

text \<open>The boards of the three concrete scenarios of the specification.\<close>

definition scenario1 :: "jsval list" where
  "scenario1 = [mark_X, mark_X, mark_X, JNull, JNull, JNull, JNull, JNull, JNull]"

definition scenario2 :: "jsval list" where
  "scenario2 = [mark_X, mark_O, mark_X, mark_O, mark_X, mark_O, mark_O, mark_X, mark_O]"

definition scenario3 :: "jsval list" where
  "scenario3 = [mark_X, JNull, JNull, JNull, mark_O, JNull, JNull, JNull, JNull]"

text \<open>
  A signed-in player in game 7, four moves made and \<open>X\<close> to move, and three
  backends: one that answers with game 7 won by \<open>X\<close> on the top row, one that answers
  with a \<open>state\<close> of three cells, and one that cannot be reached.
\<close>

definition ann :: jsval where
  "ann = JObj [(''id'', JStr ''ann''), (''username'', JStr ''ann'')]"

definition midgame :: app where
  "midgame = initial \<lparr> user := ann, gameId := JNum 7, playing := True,
     board := [mark_X, mark_X, JNull, mark_O, mark_O, JNull, JNull, JNull, JNull],
     game := JObj [(''id'', JNum 7),
                   (''state'',
                    JArr [mark_X, mark_X, JNull, mark_O, mark_O, JNull, JNull, JNull, JNull]),
                   (''next'', mark_X)],
     history := JArr [JObj [(''id'', JNum 7)]] \<rparr>"

definition won_state :: "jsval list" where
  "won_state = [mark_X, mark_X, mark_X, mark_O, mark_O, JNull, JNull, JNull, JNull]"

definition won_response :: jsval where
  "won_response = JObj [(''id'', JNum 7), (''state'', JArr won_state),
     (''winner'', mark_X), (''win_line'', JArr [JNum 0, JNum 1, JNum 2])]"

definition won_backend :: backend where
  "won_backend req = Inr won_response"

definition short_backend :: backend where
  "short_backend req = Inr (JObj [(''id'', JNum 7), (''state'', JArr [mark_X, mark_O, mark_X])])"

definition no_backend :: backend where
  "no_backend req = Inl (Error ''Failed to fetch'')"

section \<open>Properties of the win-line scan\<close>

lemma strict_eq_valid: "valid_cell c \<Longrightarrow> valid_cell d \<Longrightarrow> strict_eq c d = (c = d)"
  by (auto simp: valid_cell_def)

lemma truthy_valid: "valid_cell c \<Longrightarrow> truthy c = (c \<noteq> JNull)"
  by (auto simp: valid_cell_def)

lemma well_formed_nth: "well_formed b \<Longrightarrow> i < 9 \<Longrightarrow> valid_cell (b ! i)"
  by (simp add: well_formed_def list_all_length)

lemma WIN_LINES_in_range: "list_all in_range WIN_LINES"
  by (simp add: WIN_LINES_def in_range_def)

text \<open>On a well-formed board the test of the loop is the test of the specification.\<close>

lemma line_hit_well_formed:
  assumes "well_formed b" and "in_range l"
  shows "line_hit (JArr b) l = triple_matches b l"
proof -
  obtain x y z where l: "l = (x, y, z)" by (cases l) auto
  from assms l have r: "x < 9" "y < 9" "z < 9" by (simp_all add: in_range_def)
  from assms(1) have len: "length b = 9" by (simp add: well_formed_def)
  from r assms(1) have v: "valid_cell (b ! x)" "valid_cell (b ! y)" "valid_cell (b ! z)"
    by (simp_all add: well_formed_nth)
  show ?thesis
    using r len v by (simp add: l line_hit_def triple_matches_def strict_eq_valid truthy_valid)
qed

lemma scan_find:
  assumes "well_formed b"
  shows "list_all in_range ls \<Longrightarrow>
    scan ls (JArr b) = (case find (triple_matches b) ls of Some l \<Rightarrow> line_val l | None \<Rightarrow> JNull)"
  by (induction ls) (simp_all add: line_hit_well_formed [OF assms])

lemma scan_result:
  "scan ls v = JNull \<or> (\<exists>l \<in> set ls. scan ls v = line_val l \<and> line_hit v l)"
  by (induction ls) auto

text \<open>The scan reads the cells \<open>0..8\<close> and nothing else.\<close>

lemma cells_agree_scan:
  assumes "\<forall>i<9. cell u i = cell v i"
  shows "list_all in_range ls \<Longrightarrow> scan ls u = scan ls v"
proof (induction ls)
  case Nil
  show ?case by simp
next
  case (Cons l ls)
  obtain x y z where l: "l = (x, y, z)" by (cases l) auto
  with Cons.prems have "x < 9" "y < 9" "z < 9" by (simp_all add: in_range_def)
  with assms have "line_hit u l = line_hit v l" by (simp add: l line_hit_def)
  with Cons show ?case by simp
qed

lemma cell_pad:
  "i < 9 \<Longrightarrow> cell (JArr (take 9 (b @ replicate 9 JUndefined))) i = cell (JArr b) i"
  by (auto simp: nth_append)

text \<open>
  C1, as the code has it. On every well-formed board \<open>getWinLine\<close> returns the line of
  the outcome that the specification describes when that outcome is a win, the first
  matching triple in the order of \<open>WIN_LINES\<close>, and \<open>null\<close> both when the outcome
  described is a draw and when it is none. The mark is not part of the result; it is
  the cell at the first index of the line.
\<close>

theorem getWinLine_outcome:
  assumes "well_formed b"
  shows "getWinLine (JArr b) =
     Inr (case deriveOutcome_spec b of
            Win m l \<Rightarrow> line_val l
          | Draw \<Rightarrow> JNull
          | NoOutcome \<Rightarrow> JNull)"
  using scan_find [OF assms WIN_LINES_in_range]
  by (simp add: getWinLine_def nullish_def deriveOutcome_spec_def split: option.splits)

theorem getWinLine_outcome_witness:
  "well_formed scenario1 \<and> deriveOutcome_spec scenario1 = Win mark_X (0, 1, 2)
     \<and> getWinLine (JArr scenario1) = Inr (JArr [JNum 0, JNum 1, JNum 2])"
  using getWinLine_outcome [of scenario1]
  by (simp add: scenario1_def well_formed_def valid_cell_def deriveOutcome_spec_def
      WIN_LINES_def triple_matches_def line_val_def)

text \<open>
  C1 as stated fails: the full board of scenario 2, where the specification has a draw,
  and the open board of scenario 3, where it has no outcome, get the same result
  \<open>null\<close> from \<open>getWinLine\<close>, which has no third value.
\<close>

theorem getWinLine_no_draw:
  "deriveOutcome_spec scenario2 = Draw \<and> deriveOutcome_spec scenario3 = NoOutcome
     \<and> getWinLine (JArr scenario2) = Inr JNull \<and> getWinLine (JArr scenario3) = Inr JNull"
  by (simp add: scenario2_def scenario3_def deriveOutcome_spec_def getWinLine_def nullish_def
      WIN_LINES_def triple_matches_def line_hit_def)

text \<open>
  C2, as the code has it. \<open>getWinLine\<close> makes no test of the length: on an array of any
  length it returns normally, and its result is that on the array cut after nine cells
  and filled up to nine cells with \<open>undefined\<close>. It throws, a TypeError, on \<open>null\<close> and
  on \<open>undefined\<close> and on no other value.
\<close>

theorem getWinLine_any_length:
  "getWinLine (JArr b) = Inr (scan WIN_LINES (JArr b))
     \<and> getWinLine (JArr b) = getWinLine (JArr (take 9 (b @ replicate 9 JUndefined)))
     \<and> (\<exists>e. getWinLine v = Inl e) = (v = JNull \<or> v = JUndefined)
     \<and> getWinLine JNull = Inl TypeError \<and> getWinLine JUndefined = Inl TypeError"
proof -
  have "\<forall>i<9. cell (JArr b) i = cell (JArr (take 9 (b @ replicate 9 JUndefined))) i"
    using cell_pad by metis
  from cells_agree_scan [OF this WIN_LINES_in_range]
  have "getWinLine (JArr b) = getWinLine (JArr (take 9 (b @ replicate 9 JUndefined)))"
    by (simp add: getWinLine_def nullish_def)
  moreover have "(\<exists>e. getWinLine v = Inl e) = (v = JNull \<or> v = JUndefined)"
    by (auto simp: getWinLine_def nullish_def)
  ultimately show ?thesis by (simp add: getWinLine_def nullish_def)
qed

text \<open>
  C2 as stated fails: an array of three cells is scanned like any other and yields the
  top row; no error is raised.
\<close>

theorem getWinLine_short_board:
  "getWinLine (JArr [mark_X, mark_X, mark_X]) = Inr (JArr [JNum 0, JNum 1, JNum 2])"
  by (simp add: getWinLine_def nullish_def WIN_LINES_def line_hit_def line_val_def)

lemma load_same: "load p i m = (cell (JArr (heap m p)) i, m)"
  by (simp add: load_def)

lemma scan_run_scan: "scan_run ls p m = (scan ls (JArr (heap m p)), m)"
proof (induction ls)
  case Nil
  show ?case by simp
next
  case (Cons l ls)
  obtain a b c where l: "l = (a, b, c)" by (cases l) auto
  show ?case by (simp add: l load_same Cons.IH line_hit_def)
qed

lemma getWinLine_run_same:
  "getWinLine_run p m = (scan WIN_LINES (JArr (heap m p)), m)"
  by (simp add: getWinLine_run_def scan_run_scan)

lemma getWinLine_run_iterate:
  "((\<lambda>x. snd (getWinLine_run p x)) ^^ n) m = m"
  by (induction n) (simp_all add: getWinLine_run_same)

text \<open>
  C8. Run on the board at \<open>p\<close>, \<open>getWinLine\<close> leaves everything as it found it: every
  array of the heap, the board among them, and the state of the component, its store
  and its requests. What it returns is fixed by the cells of the board alone, the value
  that the function \<open>getWinLine\<close> has on them, whatever else the heap and the component
  hold. So a second run returns what the first returned, and so does a run made after
  any number \<open>n\<close> of runs.
\<close>

theorem getWinLine_pure:
  "snd (getWinLine_run p m) = m
     \<and> Inr (fst (getWinLine_run p m)) = getWinLine (JArr (heap m p))
     \<and> getWinLine_run p (snd (getWinLine_run p m)) = getWinLine_run p m
     \<and> getWinLine_run p (((\<lambda>x. snd (getWinLine_run p x)) ^^ n) m) = getWinLine_run p m
     \<and> (heap m p = heap m' p' \<longrightarrow> fst (getWinLine_run p m) = fst (getWinLine_run p' m'))"
  by (simp add: getWinLine_run_iterate)
    (simp add: getWinLine_run_same getWinLine_def nullish_def)

theorem getWinLine_pure_witness:
  "heap \<lparr>heap = (\<lambda>p. if p = 0 then scenario1 else []), ui = midgame\<rparr> 0
      = heap \<lparr>heap = (\<lambda>p. scenario1), ui = initial\<rparr> 5
     \<and> fst (getWinLine_run 0 \<lparr>heap = (\<lambda>p. if p = 0 then scenario1 else []), ui = midgame\<rparr>)
         = JArr [JNum 0, JNum 1, JNum 2]
     \<and> fst (getWinLine_run 5 \<lparr>heap = (\<lambda>p. scenario1), ui = initial\<rparr>)
         = JArr [JNum 0, JNum 1, JNum 2]
     \<and> snd (getWinLine_run 0 \<lparr>heap = (\<lambda>p. if p = 0 then scenario1 else []), ui = midgame\<rparr>)
         = \<lparr>heap = (\<lambda>p. if p = 0 then scenario1 else []), ui = midgame\<rparr>"
proof -
  have g: "getWinLine (JArr scenario1) = Inr (JArr [JNum 0, JNum 1, JNum 2])"
    by (simp add: scenario1_def getWinLine_def nullish_def WIN_LINES_def line_hit_def
        line_val_def)
  from getWinLine_pure [of 0 "\<lparr>heap = (\<lambda>p. if p = 0 then scenario1 else []), ui = midgame\<rparr>"
      0 "\<lparr>heap = (\<lambda>p. scenario1), ui = initial\<rparr>" 5] g
  show ?thesis by auto
qed

lemma strict_eq_same: "strict_eq c d \<Longrightarrow> c = d"
  by (cases c; cases d) simp_all

lemma truthy_not_null: "truthy c \<Longrightarrow> c \<noteq> JNull"
  by auto

text \<open>
  C9. On every board of nine cells \<open>getWinLine\<close> returns \<open>null\<close> or one of the eight
  triples of \<open>WIN_LINES\<close>, and the three cells of a triple returned hold one and the
  same value, which is not empty: it is truthy, so not \<open>null\<close>, and on a board whose
  cells are \<open>null\<close>, \<open>'X'\<close> or \<open>'O'\<close> it is one of the two marks.
\<close>

theorem getWinLine_sound:
  assumes "length b = 9"
  shows "getWinLine (JArr b) = Inr JNull
     \<or> (\<exists>l \<in> set WIN_LINES. getWinLine (JArr b) = Inr (line_val l)
          \<and> (case l of (x, y, z) \<Rightarrow>
                b ! x = b ! y \<and> b ! x = b ! z \<and> truthy (b ! x) \<and> b ! x \<noteq> JNull
                  \<and> (list_all valid_cell b \<longrightarrow> b ! x = mark_X \<or> b ! x = mark_O)))"
proof (cases "scan WIN_LINES (JArr b) = JNull")
  case True
  then show ?thesis by (simp add: getWinLine_def nullish_def)
next
  case False
  with scan_result [of WIN_LINES "JArr b"]
  obtain l where l: "l \<in> set WIN_LINES" "scan WIN_LINES (JArr b) = line_val l"
    "line_hit (JArr b) l" by auto
  obtain x y z where xyz: "l = (x, y, z)" by (cases l) auto
  from l(1) WIN_LINES_in_range have "in_range l" by (simp add: list_all_iff)
  with xyz assms have r: "x < length b" "y < length b" "z < length b"
    by (simp_all add: in_range_def)
  with l(3) xyz have h: "truthy (b ! x)" "strict_eq (b ! x) (b ! y)" "strict_eq (b ! x) (b ! z)"
    by (simp_all add: line_hit_def)
  then have e: "b ! x = b ! y" "b ! x = b ! z" "b ! x \<noteq> JNull"
    by (simp_all add: strict_eq_same truthy_not_null)
  have "b ! x = mark_X \<or> b ! x = mark_O" if "list_all valid_cell b"
  proof -
    from that r(1) have "valid_cell (b ! x)" by (simp add: list_all_length)
    with e(3) show ?thesis by (simp add: valid_cell_def)
  qed
  with l(1,2) xyz h(1) e show ?thesis
    by (auto simp: getWinLine_def nullish_def)
qed

theorem getWinLine_sound_witness:
  "length scenario1 = 9 \<and> list_all valid_cell scenario1 \<and> (0, 1, 2) \<in> set WIN_LINES
     \<and> getWinLine (JArr scenario1) = Inr (line_val (0, 1, 2))
     \<and> scenario1 ! 0 = mark_X \<and> scenario1 ! 1 = mark_X \<and> scenario1 ! 2 = mark_X"
  using getWinLine_sound [of scenario1]
  by (simp add: scenario1_def valid_cell_def getWinLine_def nullish_def
      WIN_LINES_def line_hit_def line_val_def)

section \<open>Properties of the handlers\<close>

lemma shown_result_id: "shown_result v = v"
  by (cases v) (auto simp: shown_result_def elim: strict_eq.elims)

lemma truthy_get_prop: "truthy (opt_prop res k) \<Longrightarrow> get_prop res k = Inr (opt_prop res k)"
  by (cases res) (simp_all add: opt_prop_def)

lemma get_prop_opt_prop: "get_prop res k = Inr v \<Longrightarrow> opt_prop res k = v"
  by (simp add: opt_prop_def)

lemma snapshot_cases: "snapshot v = emptyBoard \<or> v = JArr (snapshot v)"
  by (cases v) simp_all

lemma length_emptyBoard: "length emptyBoard = 9"
  by (simp add: emptyBoard_def)

subsection \<open>The board is replaced whole\<close>

lemma get_prop_nullish:
  "get_prop res k = (if nullish res then Inl TypeError else Inr (opt_prop res k))"
  by (cases res) (simp_all add: nullish_def opt_prop_def)

lemma board_startNewGame:
  "board (startNewGame be w)
     = (case be (CreateGame (player_of (user w))) of
          Inl e \<Rightarrow> board w
        | Inr res \<Rightarrow> (if nullish res then board w else snapshot (opt_prop res ''state'')))"
  by (simp add: startNewGame_def Let_def issue_def get_prop_nullish split: sum.splits)

lemma board_joinGame:
  "board (joinGame be gid w)
     = (case be (GetGame gid) of
          Inl e \<Rightarrow> board w
        | Inr res \<Rightarrow> (if nullish res then board w else snapshot (opt_prop res ''state'')))"
  by (simp add: joinGame_def Let_def issue_def get_prop_nullish split: sum.splits)

lemma board_playMove:
  assumes "truthy (gameId w)" and "truthy (user w)"
  shows "board (playMove be idx w)
     = (case be (PostMove (gameId w) (player_of (user w)) idx) of
          Inl e \<Rightarrow> board w
        | Inr res \<Rightarrow> (if nullish res then board w else snapshot (opt_prop res ''state'')))"
  using assms
  by (simp add: playMove_def Let_def issue_def get_prop_nullish split: sum.splits)

lemma board_fetchGame:
  "board (fetchGame be gid w)
     = (case be (GetGame gid) of
          Inl e \<Rightarrow> board w
        | Inr res \<Rightarrow> (if nullish res then board w else snapshot (opt_prop res ''state'')))"
  by (simp add: fetchGame_def Let_def issue_def get_prop_nullish split: sum.splits)

lemma requests_startNewGame:
  "requests (startNewGame be w) = requests w @ [CreateGame (player_of (user w))]"
  by (simp add: startNewGame_def Let_def issue_def split: sum.splits)

lemma requests_joinGame: "requests (joinGame be gid w) = requests w @ [GetGame gid]"
  by (simp add: joinGame_def Let_def issue_def split: sum.splits)

lemma requests_playMove:
  "truthy (gameId w) \<Longrightarrow> truthy (user w) \<Longrightarrow>
     requests (playMove be idx w)
       = requests w @ [PostMove (gameId w) (player_of (user w)) idx]"
  by (simp add: playMove_def Let_def issue_def split: sum.splits)

lemma requests_fetchGame: "requests (fetchGame be gid w) = requests w @ [GetGame gid]"
  by (simp add: fetchGame_def Let_def issue_def split: sum.splits)

lemma length_snapshot:
  "(\<And>xs. v = JArr xs \<Longrightarrow> length xs = 9) \<Longrightarrow> length (snapshot v) = 9"
  by (cases v) (simp_all add: emptyBoard_def)

text \<open>
  C3, as the code has it. The board starts with nine cells. Starting a game, joining a
  game, submitting a move and loading a game each issue one request and then leave the
  board as it was, when the call fails or answers \<open>null\<close>, or replace it whole: by the
  array in the \<open>state\<close> field of the response to that request, whatever its length, or
  by nine empty cells when that field is not an array. No cell is ever written in place.
  So the board has nine cells after the operation when it had before and the array that
  the backend sends as \<open>state\<close> in answer to that request has nine cells. A move
  submitted without a game id or a user issues nothing and leaves the board as it was.
\<close>

theorem board_replaced_whole:
  assumes "(w' = startNewGame be w \<and> req = CreateGame (player_of (user w)))
         \<or> (w' = joinGame be gid w \<and> req = GetGame gid)
         \<or> (w' = playMove be idx w \<and> req = PostMove (gameId w) (player_of (user w)) idx
              \<and> truthy (gameId w) \<and> truthy (user w))
         \<or> (w' = fetchGame be gid w \<and> req = GetGame gid)"
  shows "length (board initial) = 9
     \<and> requests w' = requests w @ [req]
     \<and> board w' = (case be req of
                      Inl e \<Rightarrow> board w
                    | Inr res \<Rightarrow>
                        (if nullish res then board w else snapshot (opt_prop res ''state'')))
     \<and> (board w' = board w
          \<or> (\<exists>res. be req = Inr res \<and> board w' = snapshot (opt_prop res ''state'')))
     \<and> (length (board w) = 9
           \<and> (\<forall>res xs. be req = Inr res \<and> opt_prop res ''state'' = JArr xs
                 \<longrightarrow> length xs = 9)
          \<longrightarrow> length (board w') = 9)
     \<and> (\<not> truthy (gameId w) \<or> \<not> truthy (user w)
          \<longrightarrow> board (playMove be idx w) = board w
              \<and> requests (playMove be idx w) = requests w)"
proof -
  have reqs: "requests w' = requests w @ [req]"
    using assms requests_startNewGame [of be w] requests_joinGame [of be gid w]
      requests_playMove [of w be idx] requests_fetchGame [of be gid w]
    by auto
  have exact: "board w' = (case be req of
        Inl e \<Rightarrow> board w
      | Inr res \<Rightarrow> (if nullish res then board w else snapshot (opt_prop res ''state'')))"
    using assms board_startNewGame [of be w] board_joinGame [of be gid w]
      board_playMove [of w be idx] board_fetchGame [of be gid w]
    by auto
  have repl: "board w' = board w
      \<or> (\<exists>res. be req = Inr res \<and> board w' = snapshot (opt_prop res ''state''))"
    using exact by (cases "be req") (auto split: if_splits)
  have len: "length (board w') = 9"
    if old: "length (board w) = 9"
      and nine: "\<forall>res xs. be req = Inr res \<and> opt_prop res ''state'' = JArr xs
                  \<longrightarrow> length xs = 9"
  proof -
    from repl show ?thesis
    proof
      assume "board w' = board w"
      with old show ?thesis by simp
    next
      assume "\<exists>res. be req = Inr res \<and> board w' = snapshot (opt_prop res ''state'')"
      then obtain res where r: "be req = Inr res"
        and b: "board w' = snapshot (opt_prop res ''state'')" by blast
      from nine r have "length (snapshot (opt_prop res ''state'')) = 9"
        by (intro length_snapshot) blast
      with b show ?thesis by simp
    qed
  qed
  have guard: "board (playMove be idx w) = board w
      \<and> requests (playMove be idx w) = requests w"
    if "\<not> truthy (gameId w) \<or> \<not> truthy (user w)"
    using that by (auto simp: playMove_def)
  have "length (board initial) = 9" by (simp add: initial_def emptyBoard_def)
  with reqs exact repl len guard show ?thesis by blast
qed

theorem board_replaced_whole_witness:
  "length (board midgame) = 9
     \<and> won_backend (PostMove (JNum 7) (JStr ''ann'') 2) = Inr won_response
     \<and> requests (playMove won_backend 2 midgame) = [PostMove (JNum 7) (JStr ''ann'') 2]
     \<and> board (playMove won_backend 2 midgame) = won_state
     \<and> length (board (playMove won_backend 2 midgame)) = 9"
proof -
  have g: "truthy (gameId midgame)" "truthy (user midgame)"
    "gameId midgame = JNum 7" "player_of (user midgame) = JStr ''ann''"
    "requests midgame = []"
    by (simp_all add: midgame_def ann_def initial_def player_of_def js_or_def opt_prop_def)
  have nine: "\<forall>res xs. won_backend (PostMove (JNum 7) (JStr ''ann'') 2) = Inr res
      \<and> opt_prop res ''state'' = JArr xs \<longrightarrow> length xs = 9"
    by (simp add: won_backend_def won_response_def won_state_def opt_prop_def)
  have old: "length (board midgame) = 9" by (simp add: midgame_def)
  have st: "snapshot (opt_prop won_response ''state'') = won_state" "\<not> nullish won_response"
    by (simp_all add: won_response_def opt_prop_def nullish_def)
  from board_replaced_whole [of "playMove won_backend 2 midgame" won_backend midgame
      "PostMove (JNum 7) (JStr ''ann'') 2" _ 2] g nine old st
  show ?thesis by (simp add: won_backend_def won_state_def)
qed

text \<open>
  C3 as stated fails: a response whose \<open>state\<close> is an array of three cells becomes the
  board as it is, and the board then has three cells.
\<close>

theorem board_length_not_kept:
  "length (board midgame) = 9
     \<and> board (playMove short_backend 2 midgame) = [mark_X, mark_O, mark_X]
     \<and> length (board (playMove short_backend 2 midgame)) = 3"
  by (simp add: playMove_def midgame_def ann_def short_backend_def opt_prop_def issue_def
      Let_def)

subsection \<open>Clicking a cell\<close>

text \<open>
  C4, as the code has it. In every state and for every index, a click on the cell calls
  \<open>playMove\<close> with the index exactly when the cell is on screen, that is, a user is
  signed in, rendering the page does not throw and the index is one of the board, and
  the game is being played, no request is in flight, no result is set and the cell is
  empty (falsy, which on the boards of the backend is \<open>null\<close>); otherwise it calls
  nothing. In particular it calls nothing while a request is in flight.
\<close>

theorem cell_clickable_iff:
  "(App_click w idx = [idx])
       = (truthy (user w) \<and> \<not> page_throws w \<and> idx < length (board w)
           \<and> playing w \<and> \<not> fetching w \<and> \<not> truthy (result w)
           \<and> \<not> truthy (board w ! idx))
     \<and> (App_click w idx = [idx] \<or> App_click w idx = [])
     \<and> (fetching w \<longrightarrow> App_click w idx = [])"
  by (auto simp: App_click_def GameBoard_click_def cell_disabled_def gameBoardProps_def
      page_throws_def)

theorem cell_clickable_iff_witness:
  "truthy (user midgame) \<and> \<not> page_throws midgame \<and> 2 < length (board midgame)
     \<and> board midgame ! 2 = JNull
     \<and> App_click midgame 2 = [2]
     \<and> App_click (midgame\<lparr>fetching := True\<rparr>) 2 = []"
proof -
  have p: "\<not> page_throws midgame"
    by (simp add: page_throws_def midgame_def ann_def initial_def opt_prop_def
        gameBoardProps_def GameBoard_throws_def GameResult_throws_def
        history_item_throws_def nullish_def)
  from p cell_clickable_iff [of midgame 2]
    cell_clickable_iff [of "midgame\<lparr>fetching := True\<rparr>" 2]
  show ?thesis by (simp add: midgame_def ann_def initial_def)
qed

text \<open>
  C4 as stated fails: after a logout in the middle of game 7 the game is being played,
  no request is in flight, no result is set and cell 2 is empty, and the page shown is
  the login page, with no cell on it to click.
\<close>

theorem no_cell_after_logout:
  "playing (logout midgame) \<and> fetching (logout midgame) = False
     \<and> result (logout midgame) = JNull \<and> board (logout midgame) ! 2 = JNull
     \<and> user (logout midgame) = JNull
     \<and> App_click (logout midgame) 2 = []"
  by (simp add: App_click_def logout_def midgame_def initial_def)

subsection \<open>The outcome that the server reports\<close>

lemma playMove_concluded:
  assumes "truthy (gameId w)" and "truthy (user w)"
    and "be (PostMove (gameId w) (player_of (user w)) idx) = Inr res"
    and "truthy (opt_prop res ''winner'')"
  shows "result (playMove be idx w) = opt_prop res ''winner''"
    and "winLine (playMove be idx w)
           = (case pick_win_line res of Inr l \<Rightarrow> l | Inl e \<Rightarrow> winLine w)"
  using assms truthy_get_prop [of res "''winner''"]
  by (cases res; simp add: playMove_def Let_def issue_def shown_result_id opt_prop_def
        split: sum.splits)+

lemma fetchGame_concluded:
  assumes "be (GetGame gid) = Inr res" and "truthy (opt_prop res ''winner'')"
  shows "result (fetchGame be gid w) = opt_prop res ''winner''"
    and "winLine (fetchGame be gid w)
           = (case pick_win_line res of Inr l \<Rightarrow> l | Inl e \<Rightarrow> winLine w)"
  using assms
  by (cases res; simp add: fetchGame_def Let_def issue_def shown_result_id opt_prop_def
        split: sum.splits)+

text \<open>
  What \<open>playMove\<close> and \<open>fetchGame\<close> do with a response that reports a concluded game:
  the result set is the \<open>winner\<close> field of the server; the win line set is the
  \<open>win_line\<close> field of the server whenever that field is present (truthy, as every array
  is); the line derived by \<open>getWinLine\<close> from the \<open>state\<close> of the response is set only
  when \<open>win_line\<close> is absent, \<open>null\<close> or otherwise falsy, and when the derivation throws
  the win line stays as it was.
\<close>

theorem server_outcome_shown:
  assumes "truthy (opt_prop res ''winner'')"
    and "(w' = playMove be idx w \<and> truthy (gameId w) \<and> truthy (user w)
            \<and> be (PostMove (gameId w) (player_of (user w)) idx) = Inr res)
         \<or> (w' = fetchGame be gid w \<and> be (GetGame gid) = Inr res)"
  shows "result w' = opt_prop res ''winner''
     \<and> (truthy (opt_prop res ''win_line'') \<longrightarrow> winLine w' = opt_prop res ''win_line'')
     \<and> (\<not> truthy (opt_prop res ''win_line'') \<longrightarrow>
          winLine w' = (case getWinLine (opt_prop res ''state'') of
                          Inr l \<Rightarrow> l
                        | Inl e \<Rightarrow> winLine w))"
proof -
  from assms have "result w' = opt_prop res ''winner''
      \<and> winLine w' = (case pick_win_line res of Inr l \<Rightarrow> l | Inl e \<Rightarrow> winLine w)"
    using playMove_concluded [of w be idx res] fetchGame_concluded [of be gid res w]
    by blast
  then show ?thesis by (simp add: pick_win_line_def)
qed

theorem server_outcome_shown_witness:
  "truthy (opt_prop won_response ''winner'') \<and> truthy (gameId midgame)
     \<and> truthy (user midgame)
     \<and> won_backend (PostMove (gameId midgame) (player_of (user midgame)) 2) = Inr won_response
     \<and> result (playMove won_backend 2 midgame) = mark_X
     \<and> winLine (playMove won_backend 2 midgame) = JArr [JNum 0, JNum 1, JNum 2]"
  using server_outcome_shown [of won_response "playMove won_backend 2 midgame" won_backend 2
      midgame]
  by (simp add: won_response_def won_backend_def midgame_def ann_def opt_prop_def)

text \<open>
  C5: for a response that reports a concluded game, the win line shown is the
  \<open>win_line\<close> of the server when present and the result shown is decided by its
  \<open>winner\<close>. \<open>joinGame\<close> breaks this where \<open>fetchGame\<close> keeps it. The player makes the winning
  move in game 7 and then selects game 7 in the match history: the response reports the
  winner \<open>X\<close> and the win line \<open>[0,1,2]\<close>, and \<open>joinGame\<close> sets the result and the win
  line to \<open>null\<close> and \<open>playing\<close> to true. The game id is the one it was, so the effect
  that runs \<open>fetchGame\<close> does not run again. Joined from another game, the same game 7
  gets its result and win line from that effect.
\<close>

theorem joinGame_drops_outcome:
  "result (playMove won_backend 2 midgame) = mark_X
     \<and> winLine (playMove won_backend 2 midgame) = JArr [JNum 0, JNum 1, JNum 2]
     \<and> won_backend (GetGame (JNum 7)) = Inr won_response
     \<and> opt_prop won_response ''winner'' = mark_X
     \<and> opt_prop won_response ''win_line'' = JArr [JNum 0, JNum 1, JNum 2]
     \<and> result (joinGame won_backend (JNum 7) (playMove won_backend 2 midgame)) = JNull
     \<and> winLine (joinGame won_backend (JNum 7) (playMove won_backend 2 midgame)) = JNull
     \<and> playing (joinGame won_backend (JNum 7) (playMove won_backend 2 midgame))
     \<and> gameId (joinGame won_backend (JNum 7) (playMove won_backend 2 midgame))
         = gameId (playMove won_backend 2 midgame)
     \<and> gameId (joinGame won_backend (JNum 7) (midgame\<lparr>gameId := JNum 3\<rparr>)) = JNum 7
     \<and> result (gameIdEffect won_backend
                 (joinGame won_backend (JNum 7) (midgame\<lparr>gameId := JNum 3\<rparr>))) = mark_X
     \<and> winLine (gameIdEffect won_backend
                  (joinGame won_backend (JNum 7) (midgame\<lparr>gameId := JNum 3\<rparr>)))
         = JArr [JNum 0, JNum 1, JNum 2]"
  by (simp add: joinGame_def playMove_def fetchGame_def gameIdEffect_def midgame_def ann_def
      won_backend_def won_response_def opt_prop_def issue_def pick_win_line_def
      shown_result_def Let_def)

theorem joinGame_drops_outcome_witness:
  "winLine (joinGame won_backend (JNum 7) (playMove won_backend 2 midgame)) = JNull
     \<and> opt_prop won_response ''win_line'' = JArr [JNum 0, JNum 1, JNum 2]"
  using joinGame_drops_outcome by simp

subsection \<open>Session\<close>

text \<open>
  C6. When the call to \<open>/users/login\<close> or \<open>/users/signup\<close> fails, \<open>handleAuth\<close> sets
  no error: the user becomes the object whose \<open>id\<close> and \<open>username\<close> are both the
  username given, the same object is stored under \<open>ttt-user\<close>, and the page of a
  signed-in user is shown.
\<close>

theorem handleAuth_fallback:
  assumes "be (if signup then Signup username else Login username) = Inl e"
  shows "user (handleAuth be username signup w)
       = JObj [(''id'', JStr username), (''username'', JStr username)]
     \<and> opt_prop (user (handleAuth be username signup w)) ''id'' = JStr username
     \<and> opt_prop (user (handleAuth be username signup w)) ''username'' = JStr username
     \<and> truthy (user (handleAuth be username signup w))
     \<and> authError (handleAuth be username signup w) = []
     \<and> authLoading (handleAuth be username signup w) = False
     \<and> localStorage (handleAuth be username signup w) ''ttt-user''
         = Some (user (handleAuth be username signup w))"
  using assms by (simp add: handleAuth_def Let_def issue_def opt_prop_def)

theorem handleAuth_fallback_witness:
  "no_backend (Login ''ann'') = Inl (Error ''Failed to fetch'')
     \<and> user (handleAuth no_backend ''ann'' False initial) = ann
     \<and> localStorage (handleAuth no_backend ''ann'' False initial) ''ttt-user'' = Some ann"
  using handleAuth_fallback [of no_backend False "''ann''" "Error ''Failed to fetch''" initial]
  by (simp add: no_backend_def ann_def)

text \<open>
  C7, as the code has it. Logout, from any state, sets the user to \<open>null\<close> and removes
  the key \<open>ttt-user\<close>, so that a reload finds no user; it issues no request and leaves
  every other cell of the state as it was: the game id, the game, the board, the
  result, the win line, the match history. The key \<open>ttt-user\<close> holds what \<open>handleAuth\<close>
  has set as the user, written on every login or signup.
\<close>

theorem logout_frame:
  "user (logout w) = JNull
     \<and> localStorage (logout w) = (localStorage w)(''ttt-user'' := None)
     \<and> user (loadUser (logout w)) = JNull
     \<and> App_click (logout w) idx = []
     \<and> gameId (logout w) = gameId w \<and> game (logout w) = game w
     \<and> board (logout w) = board w \<and> playing (logout w) = playing w
     \<and> result (logout w) = result w \<and> winLine (logout w) = winLine w
     \<and> history (logout w) = history w \<and> msg (logout w) = msg w
     \<and> fetching (logout w) = fetching w \<and> requests (logout w) = requests w
     \<and> localStorage (handleAuth be username signup w) ''ttt-user''
         = Some (user (handleAuth be username signup w))"
  by (simp add: logout_def loadUser_def App_click_def handleAuth_def Let_def issue_def)

text \<open>
  C7 as stated fails: after a logout in the middle of game 7 the game id, the board and
  the match history are the ones of before, not the initial ones, and the next user to
  sign in finds them.
\<close>

theorem logout_keeps_game:
  "gameId (logout midgame) = JNum 7 \<and> gameId initial = JNull
     \<and> board (logout midgame)
         = [mark_X, mark_X, JNull, mark_O, mark_O, JNull, JNull, JNull, JNull]
     \<and> board initial = [JNull, JNull, JNull, JNull, JNull, JNull, JNull, JNull, JNull]
     \<and> history (logout midgame) = JArr [JObj [(''id'', JNum 7)]]
     \<and> history initial = JArr []
     \<and> playing (logout midgame)
     \<and> gameId (handleAuth no_backend ''bob'' False (logout midgame)) = JNum 7
     \<and> board (handleAuth no_backend ''bob'' False (logout midgame))
         = [mark_X, mark_X, JNull, mark_O, mark_O, JNull, JNull, JNull, JNull]"
  by (simp add: logout_def midgame_def initial_def emptyBoard_def handleAuth_def
      no_backend_def issue_def Let_def numeral_eq_Suc)

subsection \<open>The guard of \<open>playMove\<close>\<close>

text \<open>
  C10. When no game id is set or no user is signed in, \<open>playMove\<close> returns at once:
  the whole state is the one of before, and so is the list of requests issued.
\<close>

theorem playMove_guard:
  assumes "\<not> truthy (gameId w) \<or> \<not> truthy (user w)"
  shows "playMove be idx w = w \<and> requests (playMove be idx w) = requests w"
  using assms by (auto simp: playMove_def)

theorem playMove_guard_witness:
  "gameId initial = JNull \<and> playMove won_backend 4 initial = initial
     \<and> requests (playMove won_backend 4 initial) = []"
  using playMove_guard [of initial won_backend 4]
  by (simp add: initial_def)

end
